theory Spec2Isabelle
  imports Complex_Main
begin

section \<open>Expression trees of polynomial.py\<close>

text \<open>
  The six classes \<open>X\<close>, \<open>Int\<close>, \<open>Add\<close>, \<open>Mul\<close>, \<open>Sub\<close> and \<open>Div\<close> of
  \<^verbatim>\<open>src/polynomial.py\<close> form a closed family of tree nodes. Class \<open>Int\<close> has the
  field \<open>i\<close>; the four binary classes have the fields \<open>p1\<close> and \<open>p2\<close>. Python integers
  are unbounded, so the field \<open>i\<close> is an \<^typ>\<open>int\<close>. The constructors are listed in
  the order of the class definitions in the source. The name \<open>Int\<close> is taken in HOL
  (it is the ASCII notation of set intersection), so the class \<open>Int\<close> is the
  constructor \<open>IntC\<close>.
\<close>

datatype expr =
    X
  | IntC int
  | Add expr expr
  | Mul expr expr
  | Sub expr expr
  | Div expr expr

text \<open>
  The exceptions the methods can raise. \<open>ZeroDivisionError\<close> is the explicit
  \<^verbatim>\<open>raise\<close> of \<open>Div.evaluate\<close>. \<open>AttributeError\<close> is what Python raises when the
  field \<open>i\<close> is read from an object that has none.
\<close>

datatype error = ZeroDivisionError | AttributeError

text \<open>Reading the field \<open>i\<close> (\<^verbatim>\<open>v.i\<close>): only an \<open>Int\<close> object has it.\<close>

fun attr_i :: "expr \<Rightarrow> error + int" where
  "attr_i (IntC n) = Inr n"
| "attr_i X = Inl AttributeError"
| "attr_i (Add p1 p2) = Inl AttributeError"
| "attr_i (Mul p1 p2) = Inl AttributeError"
| "attr_i (Sub p1 p2) = Inl AttributeError"
| "attr_i (Div p1 p2) = Inl AttributeError"

text \<open>
  The guards of \<open>simplify\<close>: \<^verbatim>\<open>isinstance(s, Int)\<close>, and
  \<^verbatim>\<open>isinstance(s, Int) and s.i == c\<close>, where the short-circuit \<^verbatim>\<open>and\<close> reads the
  field only of an \<open>Int\<close>. The guards of \<open>__repr__\<close>: \<^verbatim>\<open>isinstance(p, Add)\<close> and
  \<^verbatim>\<open>isinstance(p, (Add, Sub))\<close>.
\<close>

fun isinstance_Int :: "expr \<Rightarrow> bool" where
  "isinstance_Int (IntC n) = True"
| "isinstance_Int X = False"
| "isinstance_Int (Add p1 p2) = False"
| "isinstance_Int (Mul p1 p2) = False"
| "isinstance_Int (Sub p1 p2) = False"
| "isinstance_Int (Div p1 p2) = False"

fun is_Int_eq :: "expr \<Rightarrow> int \<Rightarrow> bool" where
  "is_Int_eq (IntC n) c = (n = c)"
| "is_Int_eq X c = False"
| "is_Int_eq (Add p1 p2) c = False"
| "is_Int_eq (Mul p1 p2) c = False"
| "is_Int_eq (Sub p1 p2) c = False"
| "is_Int_eq (Div p1 p2) c = False"

fun isinstance_Add :: "expr \<Rightarrow> bool" where
  "isinstance_Add (Add p1 p2) = True"
| "isinstance_Add X = False"
| "isinstance_Add (IntC n) = False"
| "isinstance_Add (Mul p1 p2) = False"
| "isinstance_Add (Sub p1 p2) = False"
| "isinstance_Add (Div p1 p2) = False"

fun isinstance_Add_Sub :: "expr \<Rightarrow> bool" where
  "isinstance_Add_Sub (Add p1 p2) = True"
| "isinstance_Add_Sub (Sub p1 p2) = True"
| "isinstance_Add_Sub X = False"
| "isinstance_Add_Sub (IntC n) = False"
| "isinstance_Add_Sub (Mul p1 p2) = False"
| "isinstance_Add_Sub (Div p1 p2) = False"

subsection \<open>evaluate\<close>

text \<open>
  Every \<open>evaluate\<close> method returns a new \<open>Int\<close> object or raises. A binary node
  evaluates \<open>p1\<close>, then \<open>p2\<close>, then reads the field \<open>i\<close> of both results; an exception
  of an operand ends the call. \<open>Div.evaluate\<close> reads \<^verbatim>\<open>v2.i\<close> first, for its test
  against 0, and divides with Python's \<^verbatim>\<open>//\<close>, which rounds toward negative
  infinity as \<open>div\<close> on \<^typ>\<open>int\<close> does.
\<close>

fun evaluate :: "expr \<Rightarrow> int \<Rightarrow> error + expr" where
  "evaluate X x_value = Inr (IntC x_value)"
| "evaluate (IntC n) x_value = Inr (IntC n)"
| "evaluate (Add p1 p2) x_value =
     (case evaluate p1 x_value of Inl e \<Rightarrow> Inl e | Inr v1 \<Rightarrow>
       (case evaluate p2 x_value of Inl e \<Rightarrow> Inl e | Inr v2 \<Rightarrow>
         (case attr_i v1 of Inl e \<Rightarrow> Inl e | Inr a \<Rightarrow>
           (case attr_i v2 of Inl e \<Rightarrow> Inl e | Inr b \<Rightarrow> Inr (IntC (a + b))))))"
| "evaluate (Mul p1 p2) x_value =
     (case evaluate p1 x_value of Inl e \<Rightarrow> Inl e | Inr v1 \<Rightarrow>
       (case evaluate p2 x_value of Inl e \<Rightarrow> Inl e | Inr v2 \<Rightarrow>
         (case attr_i v1 of Inl e \<Rightarrow> Inl e | Inr a \<Rightarrow>
           (case attr_i v2 of Inl e \<Rightarrow> Inl e | Inr b \<Rightarrow> Inr (IntC (a * b))))))"
| "evaluate (Sub p1 p2) x_value =
     (case evaluate p1 x_value of Inl e \<Rightarrow> Inl e | Inr v1 \<Rightarrow>
       (case evaluate p2 x_value of Inl e \<Rightarrow> Inl e | Inr v2 \<Rightarrow>
         (case attr_i v1 of Inl e \<Rightarrow> Inl e | Inr a \<Rightarrow>
           (case attr_i v2 of Inl e \<Rightarrow> Inl e | Inr b \<Rightarrow> Inr (IntC (a - b))))))"
| "evaluate (Div p1 p2) x_value =
     (case evaluate p1 x_value of Inl e \<Rightarrow> Inl e | Inr v1 \<Rightarrow>
       (case evaluate p2 x_value of Inl e \<Rightarrow> Inl e | Inr v2 \<Rightarrow>
         (case attr_i v2 of Inl e \<Rightarrow> Inl e | Inr b \<Rightarrow>
           (if b = 0 then Inl ZeroDivisionError
            else (case attr_i v1 of Inl e \<Rightarrow> Inl e | Inr a \<Rightarrow> Inr (IntC (a div b)))))))"

subsection \<open>simplify\<close>

text \<open>
  Each \<open>simplify\<close> method simplifies both operands first and then runs its chain of
  \<^verbatim>\<open>if\<close> statements top to bottom; the first test that holds returns. No method
  raises: every read of the field \<open>i\<close> stands behind an \<^verbatim>\<open>isinstance(_, Int)\<close> test.
  The last folding rule reads both fields, which the \<^verbatim>\<open>case\<close> below does by matching
  two \<open>Int\<close> objects.
\<close>

fun simplify :: "expr \<Rightarrow> expr" where
  "simplify X = X"
| "simplify (IntC n) = IntC n"
| "simplify (Add p1 p2) =
     (let s1 = simplify p1; s2 = simplify p2 in
      if is_Int_eq s1 0 then s2
      else if is_Int_eq s2 0 then s1
      else (case s1 of
              IntC a \<Rightarrow> (case s2 of IntC b \<Rightarrow> IntC (a + b) | _ \<Rightarrow> Add s1 s2)
            | _ \<Rightarrow> Add s1 s2))"
| "simplify (Mul p1 p2) =
     (let s1 = simplify p1; s2 = simplify p2 in
      if is_Int_eq s1 0 \<or> is_Int_eq s2 0 then IntC 0
      else if is_Int_eq s1 1 then s2
      else if is_Int_eq s2 1 then s1
      else (case s1 of
              IntC a \<Rightarrow> (case s2 of IntC b \<Rightarrow> IntC (a * b) | _ \<Rightarrow> Mul s1 s2)
            | _ \<Rightarrow> Mul s1 s2))"
| "simplify (Sub p1 p2) =
     (let s1 = simplify p1; s2 = simplify p2 in
      if is_Int_eq s2 0 then s1
      else (case s1 of
              IntC a \<Rightarrow> (case s2 of IntC b \<Rightarrow> IntC (a - b) | _ \<Rightarrow> Sub s1 s2)
            | _ \<Rightarrow> Sub s1 s2))"
| "simplify (Div p1 p2) =
     (let s1 = simplify p1; s2 = simplify p2 in
      if is_Int_eq s1 0 then (if is_Int_eq s2 0 then Div s1 s2 else IntC 0)
      else if is_Int_eq s2 1 then s1
      else (case s1 of
              IntC a \<Rightarrow> (case s2 of
                          IntC b \<Rightarrow> (if b = 0 then Div s1 s2 else IntC (a div b))
                        | _ \<Rightarrow> Div s1 s2)
            | _ \<Rightarrow> Div s1 s2))"

subsection \<open>Rendering\<close>

text \<open>
  \<open>Int.__repr__\<close> is Python's built-in \<^verbatim>\<open>str\<close> on an integer: the decimal digits,
  most significant first, after a minus sign for a negative number. The built-in is not
  part of the repository; \<open>str_int\<close> writes out what it computes.
\<close>

definition digit_char :: "nat \<Rightarrow> char" where
  "digit_char d = ''0123456789'' ! d"

function str_nat :: "nat \<Rightarrow> string" where
  "str_nat n = (if n < 10 then [digit_char n] else str_nat (n div 10) @ [digit_char (n mod 10)])"
  by pat_completeness auto
termination
  by (relation "measure (\<lambda>n. n)") auto

definition str_int :: "int \<Rightarrow> string" where
  "str_int k = (if k < 0 then CHR ''-'' # str_nat (nat (- k)) else str_nat (nat k))"

text \<open>
  The \<open>__repr__\<close> methods. \<open>Mul\<close> and \<open>Div\<close> each define a local \<open>fmt\<close> with the same
  body; \<open>Sub\<close> formats its left and right operand by two different tests.
\<close>

fun repr :: "expr \<Rightarrow> string" where
  "repr X = ''X''"
| "repr (IntC n) = str_int n"
| "repr (Add p1 p2) = repr p1 @ '' + '' @ repr p2"
| "repr (Mul p1 p2) =
     (if isinstance_Add_Sub p1 then ''( '' @ repr p1 @ '' )'' else repr p1) @ '' * '' @
     (if isinstance_Add_Sub p2 then ''( '' @ repr p2 @ '' )'' else repr p2)"
| "repr (Sub p1 p2) =
     (if isinstance_Add p1 then ''( '' @ repr p1 @ '' )'' else repr p1) @ '' - '' @
     (if isinstance_Add_Sub p2 then ''( '' @ repr p2 @ '' )'' else repr p2)"
| "repr (Div p1 p2) =
     (if isinstance_Add_Sub p1 then ''( '' @ repr p1 @ '' )'' else repr p1) @ '' / '' @
     (if isinstance_Add_Sub p2 then ''( '' @ repr p2 @ '' )'' else repr p2)"

section \<open>Normal forms\<close>

text \<open>
  The patterns that a rule of \<open>simplify\<close> rewrites, read at the root of a tree: an
  \<open>Add\<close> with an \<open>Int\<close> 0 operand or two \<open>Int\<close> operands; a \<open>Sub\<close> with an \<open>Int\<close> 0 on
  the right or two \<open>Int\<close> operands; a \<open>Mul\<close> with an \<open>Int\<close> 0 or \<open>Int\<close> 1 operand or two
  \<open>Int\<close> operands; a \<open>Div\<close> with an \<open>Int\<close> 0 numerator over a denominator other than
  the \<open>Int\<close> 0, with an \<open>Int\<close> 1 denominator, or with two \<open>Int\<close> operands and a
  denominator other than the \<open>Int\<close> 0.
\<close>

fun reducible :: "expr \<Rightarrow> bool" where
  "reducible X = False"
| "reducible (IntC n) = False"
| "reducible (Add a b) =
     (a = IntC 0 \<or> b = IntC 0 \<or> (isinstance_Int a \<and> isinstance_Int b))"
| "reducible (Mul a b) =
     (a = IntC 0 \<or> b = IntC 0 \<or> a = IntC 1 \<or> b = IntC 1 \<or>
      (isinstance_Int a \<and> isinstance_Int b))"
| "reducible (Sub a b) = (b = IntC 0 \<or> (isinstance_Int a \<and> isinstance_Int b))"
| "reducible (Div a b) =
     ((a = IntC 0 \<and> b \<noteq> IntC 0) \<or> b = IntC 1 \<or>
      (isinstance_Int a \<and> isinstance_Int b \<and> b \<noteq> IntC 0))"

text \<open>A composite node whose two operands are both \<open>Int\<close> objects.\<close>

fun all_constant :: "expr \<Rightarrow> bool" where
  "all_constant X = False"
| "all_constant (IntC n) = False"
| "all_constant (Add a b) = (isinstance_Int a \<and> isinstance_Int b)"
| "all_constant (Mul a b) = (isinstance_Int a \<and> isinstance_Int b)"
| "all_constant (Sub a b) = (isinstance_Int a \<and> isinstance_Int b)"
| "all_constant (Div a b) = (isinstance_Int a \<and> isinstance_Int b)"

text \<open>A \<open>Div\<close> node whose denominator is the \<open>Int\<close> 0.\<close>

fun zero_denominator :: "expr \<Rightarrow> bool" where
  "zero_denominator (Div a b) = (b = IntC 0)"
| "zero_denominator X = False"
| "zero_denominator (IntC n) = False"
| "zero_denominator (Add a b) = False"
| "zero_denominator (Mul a b) = False"
| "zero_denominator (Sub a b) = False"

text \<open>All subtrees of a tree, the tree itself first.\<close>

fun subtrees :: "expr \<Rightarrow> expr list" where
  "subtrees X = [X]"
| "subtrees (IntC n) = [IntC n]"
| "subtrees (Add a b) = Add a b # subtrees a @ subtrees b"
| "subtrees (Mul a b) = Mul a b # subtrees a @ subtrees b"
| "subtrees (Sub a b) = Sub a b # subtrees a @ subtrees b"
| "subtrees (Div a b) = Div a b # subtrees a @ subtrees b"

text \<open>A tree is in normal form when none of its subtrees has a reducible root.\<close>

fun normal_form :: "expr \<Rightarrow> bool" where
  "normal_form X = True"
| "normal_form (IntC n) = True"
| "normal_form (Add a b) = (\<not> reducible (Add a b) \<and> normal_form a \<and> normal_form b)"
| "normal_form (Mul a b) = (\<not> reducible (Mul a b) \<and> normal_form a \<and> normal_form b)"
| "normal_form (Sub a b) = (\<not> reducible (Sub a b) \<and> normal_form a \<and> normal_form b)"
| "normal_form (Div a b) = (\<not> reducible (Div a b) \<and> normal_form a \<and> normal_form b)"

section \<open>Properties\<close>

subsection \<open>Helper facts\<close>

text \<open>The guards, read as equations on trees.\<close>

lemma is_Int_eq_iff: "is_Int_eq s c \<longleftrightarrow> s = IntC c"
  by (cases s) auto

lemma isinstance_Int_iff: "isinstance_Int s \<longleftrightarrow> (\<exists>n. s = IntC n)"
  by (cases s) auto

lemma isinstance_Add_iff: "isinstance_Add p \<longleftrightarrow> (\<exists>u v. p = Add u v)"
  by (cases p) auto

lemma isinstance_Add_Sub_iff: "isinstance_Add_Sub p \<longleftrightarrow> (\<exists>u v. p = Add u v \<or> p = Sub u v)"
  by (cases p) auto

text \<open>
  A successful \<open>evaluate\<close> returns an \<open>Int\<close> object, so no read of the field \<open>i\<close> inside
  \<open>evaluate\<close> fails: the only exception that leaves \<open>evaluate\<close> is \<open>ZeroDivisionError\<close>.
\<close>

lemma evaluate_returns_Int: "evaluate t x = Inr v \<Longrightarrow> \<exists>c. v = IntC c"
  by (induction t arbitrary: v) (auto split: sum.splits if_splits)

lemma evaluate_no_AttributeError: "evaluate t x \<noteq> Inl AttributeError"
  by (induction t) (auto split: sum.splits if_splits dest!: evaluate_returns_Int)

lemma evaluate_Inl: "evaluate t x = Inl e \<Longrightarrow> e = ZeroDivisionError"
  using evaluate_no_AttributeError [of t x] by (cases e) auto

text \<open>What a successful \<open>evaluate\<close> of a binary node says about its operands.\<close>

lemma evaluate_Add_Inr:
  "evaluate (Add p1 p2) x = Inr v \<Longrightarrow>
   \<exists>a b. evaluate p1 x = Inr (IntC a) \<and> evaluate p2 x = Inr (IntC b) \<and> v = IntC (a + b)"
  by (auto split: sum.splits dest!: evaluate_returns_Int)

lemma evaluate_Mul_Inr:
  "evaluate (Mul p1 p2) x = Inr v \<Longrightarrow>
   \<exists>a b. evaluate p1 x = Inr (IntC a) \<and> evaluate p2 x = Inr (IntC b) \<and> v = IntC (a * b)"
  by (auto split: sum.splits dest!: evaluate_returns_Int)

lemma evaluate_Sub_Inr:
  "evaluate (Sub p1 p2) x = Inr v \<Longrightarrow>
   \<exists>a b. evaluate p1 x = Inr (IntC a) \<and> evaluate p2 x = Inr (IntC b) \<and> v = IntC (a - b)"
  by (auto split: sum.splits dest!: evaluate_returns_Int)

lemma evaluate_Div_Inr:
  "evaluate (Div p1 p2) x = Inr v \<Longrightarrow>
   \<exists>a b. evaluate p1 x = Inr (IntC a) \<and> evaluate p2 x = Inr (IntC b) \<and> b \<noteq> 0 \<and>
     v = IntC (a div b)"
  by (auto split: sum.splits if_splits dest!: evaluate_returns_Int)

text \<open>
  One step of \<open>simplify\<close>: when the simplified operands evaluate to \<open>a\<close> and \<open>b\<close>,
  whichever rule of the node fires returns a tree that evaluates to the node's value.
\<close>

lemma simplify_Add_value:
  "evaluate (simplify p1) x = Inr (IntC a) \<Longrightarrow> evaluate (simplify p2) x = Inr (IntC b) \<Longrightarrow>
   evaluate (simplify (Add p1 p2)) x = Inr (IntC (a + b))"
  by (cases "simplify p1"; cases "simplify p2"; auto simp: Let_def)

lemma simplify_Mul_value:
  "evaluate (simplify p1) x = Inr (IntC a) \<Longrightarrow> evaluate (simplify p2) x = Inr (IntC b) \<Longrightarrow>
   evaluate (simplify (Mul p1 p2)) x = Inr (IntC (a * b))"
  by (cases "simplify p1"; cases "simplify p2"; auto simp: Let_def)

lemma simplify_Sub_value:
  "evaluate (simplify p1) x = Inr (IntC a) \<Longrightarrow> evaluate (simplify p2) x = Inr (IntC b) \<Longrightarrow>
   evaluate (simplify (Sub p1 p2)) x = Inr (IntC (a - b))"
  by (cases "simplify p1"; cases "simplify p2"; auto simp: Let_def)

lemma simplify_Div_value:
  "evaluate (simplify p1) x = Inr (IntC a) \<Longrightarrow> evaluate (simplify p2) x = Inr (IntC b) \<Longrightarrow>
   b \<noteq> 0 \<Longrightarrow> evaluate (simplify (Div p1 p2)) x = Inr (IntC (a div b))"
  by (cases "simplify p1"; cases "simplify p2"; auto simp: Let_def)

text \<open>
  When no rule of a node applies to the simplified operands, \<open>simplify\<close> rebuilds the
  node from them.
\<close>

lemma simplify_Add_keep:
  "\<not> reducible (Add (simplify p1) (simplify p2)) \<Longrightarrow>
   simplify (Add p1 p2) = Add (simplify p1) (simplify p2)"
  by (cases "simplify p1"; cases "simplify p2"; simp add: Let_def)

lemma simplify_Mul_keep:
  "\<not> reducible (Mul (simplify p1) (simplify p2)) \<Longrightarrow>
   simplify (Mul p1 p2) = Mul (simplify p1) (simplify p2)"
  by (cases "simplify p1"; cases "simplify p2"; simp add: Let_def)

lemma simplify_Sub_keep:
  "\<not> reducible (Sub (simplify p1) (simplify p2)) \<Longrightarrow>
   simplify (Sub p1 p2) = Sub (simplify p1) (simplify p2)"
  by (cases "simplify p1"; cases "simplify p2"; simp add: Let_def)

lemma simplify_Div_keep:
  "\<not> reducible (Div (simplify p1) (simplify p2)) \<Longrightarrow>
   simplify (Div p1 p2) = Div (simplify p1) (simplify p2)"
  by (cases "simplify p1"; cases "simplify p2"; simp add: Let_def)

text \<open>A tree in normal form is a fixed point of \<open>simplify\<close>.\<close>

lemma normal_form_fixed: "normal_form t \<Longrightarrow> simplify t = t"
proof (induction t)
  case X
  show ?case by simp
next
  case (IntC n)
  show ?case by simp
next
  case (Add a b)
  from Add.prems have nf: "\<not> reducible (Add a b) \<and> normal_form a \<and> normal_form b"
    unfolding normal_form.simps .
  from nf have fa: "simplify a = a" by (intro Add.IH(1)) blast
  from nf have fb: "simplify b = b" by (intro Add.IH(2)) blast
  have "\<not> reducible (Add (simplify a) (simplify b))"
    unfolding fa fb using nf by blast
  then have "simplify (Add a b) = Add (simplify a) (simplify b)"
    by (rule simplify_Add_keep)
  then show ?case by (simp only: fa fb)
next
  case (Mul a b)
  from Mul.prems have nf: "\<not> reducible (Mul a b) \<and> normal_form a \<and> normal_form b"
    unfolding normal_form.simps .
  from nf have fa: "simplify a = a" by (intro Mul.IH(1)) blast
  from nf have fb: "simplify b = b" by (intro Mul.IH(2)) blast
  have "\<not> reducible (Mul (simplify a) (simplify b))"
    unfolding fa fb using nf by blast
  then have "simplify (Mul a b) = Mul (simplify a) (simplify b)"
    by (rule simplify_Mul_keep)
  then show ?case by (simp only: fa fb)
next
  case (Sub a b)
  from Sub.prems have nf: "\<not> reducible (Sub a b) \<and> normal_form a \<and> normal_form b"
    unfolding normal_form.simps .
  from nf have fa: "simplify a = a" by (intro Sub.IH(1)) blast
  from nf have fb: "simplify b = b" by (intro Sub.IH(2)) blast
  have "\<not> reducible (Sub (simplify a) (simplify b))"
    unfolding fa fb using nf by blast
  then have "simplify (Sub a b) = Sub (simplify a) (simplify b)"
    by (rule simplify_Sub_keep)
  then show ?case by (simp only: fa fb)
next
  case (Div a b)
  from Div.prems have nf: "\<not> reducible (Div a b) \<and> normal_form a \<and> normal_form b"
    unfolding normal_form.simps .
  from nf have fa: "simplify a = a" by (intro Div.IH(1)) blast
  from nf have fb: "simplify b = b" by (intro Div.IH(2)) blast
  have "\<not> reducible (Div (simplify a) (simplify b))"
    unfolding fa fb using nf by blast
  then have "simplify (Div a b) = Div (simplify a) (simplify b)"
    by (rule simplify_Div_keep)
  then show ?case by (simp only: fa fb)
qed

text \<open>Every result of \<open>simplify\<close> is in normal form.\<close>

lemma simplify_normal_form: "normal_form (simplify t)"
  by (induction t) (auto simp: Let_def is_Int_eq_iff split: expr.splits)

lemma normal_form_subtrees:
  "normal_form t \<longleftrightarrow> (\<forall>s \<in> set (subtrees t). \<not> reducible s)"
  by (induction t) auto

lemma normal_form_all_constant:
  "normal_form t \<Longrightarrow> s \<in> set (subtrees t) \<Longrightarrow> all_constant s \<Longrightarrow> zero_denominator s"
  by (induction t) auto

subsection \<open>Division\<close>

text \<open>
  Claim C3. \<open>Div.evaluate\<close> evaluates both operands at \<open>x\<close>. With the operands' values
  \<open>va\<close> and \<open>vb\<close> at hand, it raises \<open>ZeroDivisionError\<close> exactly when \<open>vb = 0\<close>, and
  otherwise returns the \<open>Int\<close> of the floor of the quotient \<open>va / vb\<close>, rounding toward
  negative infinity: 7 by 2 gives 3, -7 by 2 gives -4 (not the truncated -3), and
  5 by 0 raises \<open>ZeroDivisionError\<close>, at every \<open>x\<close>. An operand that raises has no
  value; its \<open>ZeroDivisionError\<close> leaves the \<open>Div\<close> node as it is.
\<close>

theorem Div_evaluate_floor:
  "(evaluate a x = Inr (IntC va) \<and> evaluate b x = Inr (IntC vb) \<longrightarrow>
      (evaluate (Div a b) x = Inl ZeroDivisionError \<longleftrightarrow> vb = 0) \<and>
      (vb \<noteq> 0 \<longrightarrow>
         evaluate (Div a b) x = Inr (IntC \<lfloor>real_of_int va / real_of_int vb\<rfloor>))) \<and>
   (evaluate a x = Inl e \<or> evaluate b x = Inl e \<longrightarrow>
      evaluate (Div a b) x = Inl ZeroDivisionError) \<and>
   evaluate (Div (IntC 7) (IntC 2)) y = Inr (IntC 3) \<and>
   evaluate (Div (IntC (- 7)) (IntC 2)) y = Inr (IntC (- 4)) \<and>
   evaluate (Div (IntC 5) (IntC 0)) y = Inl ZeroDivisionError"
proof -
  have operand: "evaluate (Div a b) x = Inl ZeroDivisionError"
    if "evaluate a x = Inl e \<or> evaluate b x = Inl e"
    using that by (auto split: sum.splits dest: evaluate_Inl)
  then show ?thesis
    by (simp add: floor_divide_of_int_eq)
qed

theorem Div_evaluate_floor_witness:
  "evaluate (Sub X (IntC 9)) 2 = Inr (IntC (- 7)) \<and>
   evaluate (Add (IntC 1) (IntC 1)) 2 = Inr (IntC 2) \<and>
   evaluate (Div (Sub X (IntC 9)) (Add (IntC 1) (IntC 1))) 2 \<noteq> Inl ZeroDivisionError \<and>
   evaluate (Div (Sub X (IntC 9)) (Add (IntC 1) (IntC 1))) 2 =
     Inr (IntC \<lfloor>real_of_int (- 7) / real_of_int 2\<rfloor>) \<and>
   evaluate (Sub X (IntC 2)) 2 = Inr (IntC 0) \<and>
   evaluate (Div (IntC 5) (Sub X (IntC 2))) 2 = Inl ZeroDivisionError \<and>
   evaluate (Div (IntC 1) (IntC 0)) 2 = Inl ZeroDivisionError \<and>
   evaluate (Div (Div (IntC 1) (IntC 0)) (IntC 1)) 2 = Inl ZeroDivisionError"
  using Div_evaluate_floor
    [of "Sub X (IntC 9)" 2 "- 7" "Add (IntC 1) (IntC 1)" 2 ZeroDivisionError 0]
    Div_evaluate_floor [of "IntC 5" 2 5 "Sub X (IntC 2)" 0 ZeroDivisionError 0]
    Div_evaluate_floor [of "Div (IntC 1) (IntC 0)" 2 0 "IntC 1" 1 ZeroDivisionError 0]
  by simp

subsection \<open>The equations of evaluate\<close>

text \<open>
  Claim C5. \<open>evaluate\<close> on \<open>X\<close> returns the \<open>Int\<close> of \<open>x\<close>; on an \<open>Int\<close> it returns an
  \<open>Int\<close> of the same integer, whatever \<open>x\<close> is; on \<open>Add\<close>, \<open>Sub\<close> and \<open>Mul\<close> it returns
  the \<open>Int\<close> of the sum, difference and product of the values its operands evaluate
  to. Every successful result is an \<open>Int\<close>. The methods assign to no field, and
  \<open>evaluate\<close> is a function of the tree and \<open>x\<close> alone.
\<close>

theorem evaluate_equations:
  "evaluate X x = Inr (IntC x) \<and>
   evaluate (IntC c) x = Inr (IntC c) \<and>
   (evaluate a x = Inr (IntC va) \<and> evaluate b x = Inr (IntC vb) \<longrightarrow>
      evaluate (Add a b) x = Inr (IntC (va + vb)) \<and>
      evaluate (Sub a b) x = Inr (IntC (va - vb)) \<and>
      evaluate (Mul a b) x = Inr (IntC (va * vb))) \<and>
   (evaluate t x = Inr v \<longrightarrow> (\<exists>k. v = IntC k))"
  using evaluate_returns_Int [of t x v] by simp

theorem evaluate_equations_witness:
  "evaluate (Mul (IntC 2) X) 4 = Inr (IntC 8) \<and>
   evaluate (Div (IntC 6) (IntC 2)) 4 = Inr (IntC 3) \<and>
   evaluate (Add (Mul (IntC 2) X) (Div (IntC 6) (IntC 2))) 4 = Inr (IntC (8 + 3)) \<and>
   evaluate (Sub (Mul (IntC 2) X) (Div (IntC 6) (IntC 2))) 4 = Inr (IntC (8 - 3)) \<and>
   evaluate (Mul (Mul (IntC 2) X) (Div (IntC 6) (IntC 2))) 4 = Inr (IntC (8 * 3))"
  using evaluate_equations
    [of 4 0 "Mul (IntC 2) X" 8 "Div (IntC 6) (IntC 2)" 3 "Mul (IntC 2) X" "IntC 8"]
  by simp

subsection \<open>Rule order in Mul.simplify\<close>

text \<open>
  Claim C6. In \<open>Mul.simplify\<close> the zero rule is tested first: when either simplified
  operand is the \<open>Int\<close> 0 the result is the \<open>Int\<close> 0, also when the other operand is
  the \<open>Int\<close> 1 or both are \<open>Int\<close> objects. The product of 0 and 1 simplifies to 0.
\<close>

theorem Mul_zero_rule_first:
  "(simplify a = IntC 0 \<or> simplify b = IntC 0 \<longrightarrow> simplify (Mul a b) = IntC 0) \<and>
   simplify (Mul (IntC 0) (IntC 1)) = IntC 0 \<and>
   simplify (Mul (IntC 0) (IntC 1)) \<noteq> IntC 1"
  by (auto simp: Let_def)

theorem Mul_zero_rule_first_witness:
  "simplify (IntC 1) \<noteq> IntC 0 \<and> simplify (Sub X (IntC 0)) = X \<and>
   simplify (Div (IntC 0) X) = IntC 0 \<and>
   simplify (Mul (IntC 1) (Div (IntC 0) X)) = IntC 0 \<and>
   simplify (Mul (Div (IntC 0) X) (Sub X (IntC 0))) = IntC 0"
  using Mul_zero_rule_first [of "IntC 1" "Div (IntC 0) X"]
    Mul_zero_rule_first [of "Div (IntC 0) X" "Sub X (IntC 0)"]
  by (simp add: Let_def)

subsection \<open>Simplification and division by zero\<close>

text \<open>
  Claim C9. \<open>simplify\<close> can remove a division by zero: the product of 1 / 0 and 0
  raises \<open>ZeroDivisionError\<close> when evaluated, at every \<open>x\<close>, while its simplified form,
  which the zero rule of \<open>Mul.simplify\<close> makes the \<open>Int\<close> 0 without looking at the
  other operand, evaluates to the \<open>Int\<close> 0.
\<close>

theorem simplify_erases_ZeroDivisionError:
  "evaluate (Mul (Div (IntC 1) (IntC 0)) (IntC 0)) x = Inl ZeroDivisionError \<and>
   simplify (Div (IntC 1) (IntC 0)) = Div (IntC 1) (IntC 0) \<and>
   simplify (Mul (Div (IntC 1) (IntC 0)) (IntC 0)) = IntC 0 \<and>
   evaluate (simplify (Mul (Div (IntC 1) (IntC 0)) (IntC 0))) x = Inr (IntC 0)"
  by (simp add: Let_def)

subsection \<open>simplify keeps the value\<close>

text \<open>
  Claim C1. For every tree \<open>t\<close> and integer \<open>x\<close> at which \<open>evaluate\<close> succeeds (raises
  no \<open>ZeroDivisionError\<close>), evaluating the simplified tree at \<open>x\<close> returns the same
  \<open>Int\<close> as evaluating \<open>t\<close>.
\<close>

theorem simplify_preserves_evaluate:
  "evaluate t x = Inr v \<Longrightarrow> evaluate (simplify t) x = Inr v"
proof (induction t arbitrary: v)
  case X
  then show ?case by simp
next
  case (IntC n)
  then show ?case by auto
next
  case (Add p1 p2)
  from evaluate_Add_Inr [OF Add.prems] obtain a b
    where e1: "evaluate p1 x = Inr (IntC a)" and e2: "evaluate p2 x = Inr (IntC b)"
      and v: "v = IntC (a + b)" by blast
  show ?case unfolding v
    by (rule simplify_Add_value [OF Add.IH(1) [OF e1] Add.IH(2) [OF e2]])
next
  case (Mul p1 p2)
  from evaluate_Mul_Inr [OF Mul.prems] obtain a b
    where e1: "evaluate p1 x = Inr (IntC a)" and e2: "evaluate p2 x = Inr (IntC b)"
      and v: "v = IntC (a * b)" by blast
  show ?case unfolding v
    by (rule simplify_Mul_value [OF Mul.IH(1) [OF e1] Mul.IH(2) [OF e2]])
next
  case (Sub p1 p2)
  from evaluate_Sub_Inr [OF Sub.prems] obtain a b
    where e1: "evaluate p1 x = Inr (IntC a)" and e2: "evaluate p2 x = Inr (IntC b)"
      and v: "v = IntC (a - b)" by blast
  show ?case unfolding v
    by (rule simplify_Sub_value [OF Sub.IH(1) [OF e1] Sub.IH(2) [OF e2]])
next
  case (Div p1 p2)
  from evaluate_Div_Inr [OF Div.prems] obtain a b
    where e1: "evaluate p1 x = Inr (IntC a)" and e2: "evaluate p2 x = Inr (IntC b)"
      and nz: "b \<noteq> 0" and v: "v = IntC (a div b)" by blast
  show ?case unfolding v
    by (rule simplify_Div_value [OF Div.IH(1) [OF e1] Div.IH(2) [OF e2] nz])
qed

text \<open>
  The polynomial \<open>poly\<close> that the source builds, 4 + 3 + X + 1 * ( X * X + 1 ), at
  \<open>X = 2\<close>: its simplified form is 7 + X + ( X * X + 1 ), and both evaluate to 14.
\<close>

theorem simplify_preserves_evaluate_witness:
  "evaluate (Add (Add (IntC 4) (IntC 3)) (Add X (Mul (IntC 1) (Add (Mul X X) (IntC 1))))) 2
     = Inr (IntC 14) \<and>
   simplify (Add (Add (IntC 4) (IntC 3)) (Add X (Mul (IntC 1) (Add (Mul X X) (IntC 1)))))
     = Add (IntC 7) (Add X (Add (Mul X X) (IntC 1))) \<and>
   evaluate (simplify
      (Add (Add (IntC 4) (IntC 3)) (Add X (Mul (IntC 1) (Add (Mul X X) (IntC 1)))))) 2
     = Inr (IntC 14)"
  using simplify_preserves_evaluate
    [of "Add (Add (IntC 4) (IntC 3)) (Add X (Mul (IntC 1) (Add (Mul X X) (IntC 1))))" 2
        "IntC 14"]
  by (simp add: Let_def)

subsection \<open>simplify is idempotent\<close>

text \<open>
  Claim C2. Simplifying a simplified tree changes nothing: for every tree \<open>t\<close>,
  \<open>simplify (simplify t)\<close> is the tree \<open>simplify t\<close>, and so both render to the same
  string.
\<close>

theorem simplify_idempotent:
  "simplify (simplify t) = simplify t \<and> repr (simplify (simplify t)) = repr (simplify t)"
  by (simp only: normal_form_fixed [OF simplify_normal_form] simp_thms)

subsection \<open>The zero guard of Div.simplify\<close>

text \<open>
  Claim C4. \<open>simplify\<close> is defined on every tree and raises nothing (it is a total
  function with no error result: the source has no \<^verbatim>\<open>raise\<close> in it and guards every
  field read). Whenever the simplified denominator of a \<open>Div\<close> is the \<open>Int\<close> 0, also
  when the numerator is the \<open>Int\<close> 0 too, the result is the \<open>Div\<close> node of the
  simplified operands, not a folded constant, and evaluating that result raises
  \<open>ZeroDivisionError\<close>. So 0 / 0 simplifies to the node 0 / 0, not to the \<open>Int\<close> 0.
\<close>

theorem simplify_keeps_zero_denominator:
  "(simplify b = IntC 0 \<longrightarrow>
      simplify (Div a b) = Div (simplify a) (simplify b) \<and>
      evaluate (simplify (Div a b)) x = Inl ZeroDivisionError) \<and>
   simplify (Div (IntC 0) (IntC 0)) = Div (IntC 0) (IntC 0) \<and>
   simplify (Div (IntC 0) (IntC 0)) \<noteq> IntC 0 \<and>
   repr (simplify (Div (IntC 0) (IntC 0))) = ''0 / 0'' \<and>
   evaluate (simplify (Div (IntC 0) (IntC 0))) y = Inl ZeroDivisionError"
proof -
  have keep: "simplify (Div a b) = Div (simplify a) (IntC 0)" if "simplify b = IntC 0"
    using that by (cases "simplify a") (simp_all add: Let_def)
  have fails: "evaluate (Div s (IntC 0)) x = Inl ZeroDivisionError" for s
    by (auto split: sum.splits dest: evaluate_Inl evaluate_returns_Int)
  have guard: "simplify b = IntC 0 \<longrightarrow>
      simplify (Div a b) = Div (simplify a) (simplify b) \<and>
      evaluate (simplify (Div a b)) x = Inl ZeroDivisionError"
  proof (intro impI conjI)
    assume z: "simplify b = IntC 0"
    show "simplify (Div a b) = Div (simplify a) (simplify b)"
      by (simp only: keep [OF z] z)
    show "evaluate (simplify (Div a b)) x = Inl ZeroDivisionError"
      by (simp only: keep [OF z] fails)
  qed
  have kept: "simplify (Div (IntC 0) (IntC 0)) = Div (IntC 0) (IntC 0)"
    by (simp add: Let_def)
  have not_folded: "simplify (Div (IntC 0) (IntC 0)) \<noteq> IntC 0"
    by (simp add: Let_def)
  have rendered: "repr (simplify (Div (IntC 0) (IntC 0))) = ''0 / 0''"
    by (simp add: Let_def str_int_def digit_char_def)
  have raises: "evaluate (simplify (Div (IntC 0) (IntC 0))) y = Inl ZeroDivisionError"
    by (simp add: Let_def)
  show ?thesis
    by (intro conjI) (fact guard, fact kept, fact not_folded, fact rendered, fact raises)
qed

theorem simplify_keeps_zero_denominator_witness:
  "simplify (Mul X (IntC 0)) = IntC 0 \<and>
   simplify (Div (Add X (IntC 0)) (Mul X (IntC 0))) = Div X (IntC 0) \<and>
   evaluate (simplify (Div (Add X (IntC 0)) (Mul X (IntC 0)))) 3 = Inl ZeroDivisionError"
  using simplify_keeps_zero_denominator [of "Mul X (IntC 0)" "Add X (IntC 0)" 3 0]
  by (simp add: Let_def)

subsection \<open>Parentheses in rendering\<close>

text \<open>
  Claim C7. \<open>__repr__\<close> of an \<open>Add\<close> never puts parentheses around an operand.
  \<open>__repr__\<close> of a \<open>Mul\<close> and of a \<open>Div\<close> wraps an operand as \<open>( ... )\<close> exactly when
  the operand is an \<open>Add\<close> or a \<open>Sub\<close>. \<open>__repr__\<close> of a \<open>Sub\<close> wraps its left operand
  exactly when it is an \<open>Add\<close>, and its right operand exactly when it is an \<open>Add\<close> or
  a \<open>Sub\<close>. So ( 1 + 2 ) * 3 and 10 - ( 3 - 1 ) render with the parentheses shown.
\<close>

theorem repr_parentheses:
  "repr (Add a b) = repr a @ '' + '' @ repr b \<and>
   repr (Mul a b) =
     (if \<exists>u v. a = Add u v \<or> a = Sub u v then ''( '' @ repr a @ '' )'' else repr a) @ '' * '' @
     (if \<exists>u v. b = Add u v \<or> b = Sub u v then ''( '' @ repr b @ '' )'' else repr b) \<and>
   repr (Div a b) =
     (if \<exists>u v. a = Add u v \<or> a = Sub u v then ''( '' @ repr a @ '' )'' else repr a) @ '' / '' @
     (if \<exists>u v. b = Add u v \<or> b = Sub u v then ''( '' @ repr b @ '' )'' else repr b) \<and>
   repr (Sub a b) =
     (if \<exists>u v. a = Add u v then ''( '' @ repr a @ '' )'' else repr a) @ '' - '' @
     (if \<exists>u v. b = Add u v \<or> b = Sub u v then ''( '' @ repr b @ '' )'' else repr b) \<and>
   repr (Mul (Add (IntC 1) (IntC 2)) (IntC 3)) = ''( 1 + 2 ) * 3'' \<and>
   repr (Sub (IntC 10) (Sub (IntC 3) (IntC 1))) = ''10 - ( 3 - 1 )''"
proof -
  have "repr (Mul (Add (IntC 1) (IntC 2)) (IntC 3)) = ''( 1 + 2 ) * 3''"
    by (simp add: str_int_def digit_char_def)
  moreover have "repr (Sub (IntC 10) (Sub (IntC 3) (IntC 1))) = ''10 - ( 3 - 1 )''"
    by (simp add: str_int_def digit_char_def)
  ultimately show ?thesis
    by (simp only: repr.simps isinstance_Add_iff isinstance_Add_Sub_iff simp_thms)
qed

subsection \<open>Rendering does not determine the value\<close>

text \<open>
  Claim C10. Two trees can render to the same string and evaluate to different values:
  2 * (3 / 2) and (2 * 3) / 2 both render as \<open>2 * 3 / 2\<close>, and evaluate, at every
  \<open>x\<close>, to 2 and to 3. \<open>__repr__\<close> of a \<open>Mul\<close> or a \<open>Div\<close> never wraps an operand that
  is a \<open>Mul\<close> or a \<open>Div\<close>, so the two groupings render alike for all operands.
\<close>

theorem repr_not_injective:
  "repr (Mul (IntC 2) (Div (IntC 3) (IntC 2))) = ''2 * 3 / 2'' \<and>
   repr (Div (Mul (IntC 2) (IntC 3)) (IntC 2)) = ''2 * 3 / 2'' \<and>
   evaluate (Mul (IntC 2) (Div (IntC 3) (IntC 2))) x = Inr (IntC 2) \<and>
   evaluate (Div (Mul (IntC 2) (IntC 3)) (IntC 2)) x = Inr (IntC 3) \<and>
   repr (Mul a (Div b c)) = repr (Div (Mul a b) c)"
  by (simp add: str_int_def digit_char_def)

subsection \<open>Results of simplify are in normal form\<close>

text \<open>
  Claim C8. For every tree \<open>t\<close>, no subtree of \<open>simplify t\<close> has a reducible root (an
  \<open>Add\<close> with an \<open>Int\<close> 0 operand or two \<open>Int\<close> operands, a \<open>Sub\<close> with an \<open>Int\<close> 0 on the
  right or two \<open>Int\<close> operands, a \<open>Mul\<close> with an \<open>Int\<close> 0 or \<open>Int\<close> 1 operand or two \<open>Int\<close>
  operands, a \<open>Div\<close> with an \<open>Int\<close> 0 numerator over a denominator other than the \<open>Int\<close>
  0, with an \<open>Int\<close> 1 denominator, or with two \<open>Int\<close> operands and a denominator other
  than the \<open>Int\<close> 0), and the only composite subtrees with two \<open>Int\<close> operands are
  \<open>Div\<close> nodes whose denominator is the \<open>Int\<close> 0.
\<close>

theorem simplify_result_normal_form:
  "(\<forall>s \<in> set (subtrees (simplify t)). \<not> reducible s) \<and>
   (\<forall>s \<in> set (subtrees (simplify t)). all_constant s \<longrightarrow> zero_denominator s)"
  using simplify_normal_form [of t] normal_form_subtrees [of "simplify t"]
    normal_form_all_constant [of "simplify t"]
  by blast

theorem simplify_result_normal_form_witness:
  "simplify (Add (Mul (IntC 1) X) (Div (Sub (IntC 5) (IntC 3)) (Mul X (IntC 0))))
     = Add X (Div (IntC 2) (IntC 0)) \<and>
   Div (IntC 2) (IntC 0) \<in> set (subtrees
     (simplify (Add (Mul (IntC 1) X) (Div (Sub (IntC 5) (IntC 3)) (Mul X (IntC 0)))))) \<and>
   \<not> reducible (Div (IntC 2) (IntC 0)) \<and>
   all_constant (Div (IntC 2) (IntC 0)) \<and>
   zero_denominator (Div (IntC 2) (IntC 0))"
  using simplify_result_normal_form
    [of "Add (Mul (IntC 1) X) (Div (Sub (IntC 5) (IntC 3)) (Mul X (IntC 0)))"]
  by (simp add: Let_def)

end
